theory Spec2Isabelle
  imports Main
begin

section \<open>JavaScript values and objects\<close>

text \<open>
  The extension is plain JavaScript. The values that flow through the code under study
  are strings, integral numbers (line and column indexes, process exit codes),
  \<open>undefined\<close> and \<open>null\<close>. Numbers are modelled as \<open>int\<close>: every number the
  code handles is an integer delivered by the editor or by the operating system, so the
  floating point value NaN (the only number that is not strictly equal to itself) does
  not occur. Strings are \<open>char list\<close>.
\<close>

datatype jsval = Undefined | Null | Str string | Num int

text \<open>
  A plain object is the list of its own enumerable properties in insertion order, with
  distinct keys. Reading a property that is absent yields \<open>undefined\<close>.
\<close>

type_synonym obj = "(string \<times> jsval) list"

definition keys :: "obj \<Rightarrow> string list" where
  "keys ob = map fst ob"

definition getprop :: "obj \<Rightarrow> string \<Rightarrow> jsval" where
  "getprop ob k = (case map_of ob k of None \<Rightarrow> Undefined | Some v \<Rightarrow> v)"

text \<open>Assignment to a property: an existing key keeps its place, a new key goes last.\<close>

fun assign :: "obj \<Rightarrow> string \<Rightarrow> jsval \<Rightarrow> obj" where
  "assign [] k v = [(k, v)]"
| "assign ((k', v') # ps) k v = (if k' = k then (k, v) # ps else (k', v') # assign ps k v)"

text \<open>The spread \<open>{...src}\<close> inside an object literal copies the properties of \<open>src\<close> in order.\<close>

fun spread :: "obj \<Rightarrow> obj \<Rightarrow> obj" where
  "spread ob [] = ob"
| "spread ob ((k, v) # src) = spread (assign ob k v) src"

text \<open>
  \<open>JSON.stringify\<close> of a plain object writes one member per property, in order, and
  leaves out every property whose value is \<open>undefined\<close>; \<open>null\<close> is written as
  \<open>null\<close>. The JSON text is represented by the list of the members it contains.
\<close>

definition JSON_stringify :: "obj \<Rightarrow> obj" where
  "JSON_stringify ob = filter (\<lambda>(k, v). v \<noteq> Undefined) ob"

section \<open>The State snapshot\<close>

text \<open>
  The snapshot of a tick. \<open>workspace\<close> holds \<open>vscode.workspace.name\<close>, which is
  a string, or \<open>undefined\<close> (\<open>None\<close>) when no folder or workspace is open; the other
  fields are always strings and numbers.
\<close>

record State =
  workspace :: "string option"
  fileName :: string
  language :: string
  row :: int
  col :: int
  viewChunk :: string

text \<open>The object literal that \<open>pollState\<close> builds for a snapshot, keys in source order.\<close>

definition State_obj :: "State \<Rightarrow> obj" where
  "State_obj s =
     [(''workspace'', case workspace s of None \<Rightarrow> Undefined | Some w \<Rightarrow> Str w),
      (''fileName'', Str (fileName s)),
      (''language'', Str (language s)),
      (''row'', Num (row s)),
      (''col'', Num (col s)),
      (''viewChunk'', Str (viewChunk s))]"

text \<open>The initial value of the module variable \<open>prevState\<close>.\<close>

definition initial_prevState :: State where
  "initial_prevState =
     \<lparr>workspace = Some [], fileName = [], language = [], row = 0, col = 0, viewChunk = []\<rparr>"

section \<open>shallowEqual\<close>

text \<open>
  \<open>shallowEqual(objA, objB)\<close>: different numbers of keys give \<open>false\<close>; otherwise the
  loop over the keys of \<open>objA\<close> returns \<open>false\<close> at the first key whose two values are
  not strictly equal, and \<open>true\<close> when it runs to its end.
\<close>

fun shallowEqual_loop :: "string list \<Rightarrow> obj \<Rightarrow> obj \<Rightarrow> bool" where
  "shallowEqual_loop [] objA objB = True"
| "shallowEqual_loop (key # rest) objA objB =
     (if getprop objA key \<noteq> getprop objB key then False else shallowEqual_loop rest objA objB)"

definition shallowEqual :: "obj \<Rightarrow> obj \<Rightarrow> bool" where
  "shallowEqual objA objB =
     (let keysA = keys objA; keysB = keys objB in
      if length keysA \<noteq> length keysB then False
      else shallowEqual_loop keysA objA objB)"

text \<open>The change detector of the poller: the tick goes on when the snapshots are not equal.\<close>

definition changed :: "State \<Rightarrow> State \<Rightarrow> bool" where
  "changed prev cur = (\<not> shallowEqual (State_obj prev) (State_obj cur))"

text \<open>The number of the six fields in which two snapshots differ.\<close>

definition differing_fields :: "State \<Rightarrow> State \<Rightarrow> nat" where
  "differing_fields s1 s2 =
     (if workspace s1 = workspace s2 then 0 else 1) +
     (if fileName s1 = fileName s2 then 0 else 1) +
     (if language s1 = language s2 then 0 else 1) +
     (if row s1 = row s2 then 0 else 1) +
     (if col s1 = col s2 then 0 else 1) +
     (if viewChunk s1 = viewChunk s2 then 0 else 1)"

section \<open>getViewRange\<close>

text \<open>
  \<open>vscode.Position\<close> and \<open>vscode.Range\<close> are value classes of the editor: a position
  is a line and a character, a range is a start and an end position. Only
  \<open>selection.active.line\<close> is read from the selection. The constructors of the editor
  reject negative numbers and order the two positions of a range; the editor delivers
  line counts and cursor lines that are not negative, and on those \<open>getViewRange\<close>
  builds no negative position and no range whose end is before its start.
\<close>

datatype Position = Position (line: int) (character: int)

datatype Range = Range (start: Position) (end_position: Position)

datatype Selection = Selection (active: Position)

definition getViewRange :: "Selection \<Rightarrow> int \<Rightarrow> Range" where
  "getViewRange selection lineCount =
     (let rng = 5;
          totalRange = rng * 2 + 1
      in if lineCount < totalRange
         then Range (Position 0 0) (Position lineCount 0)
         else
           let startLine = max 0 (line (active selection) - rng)
           in if lineCount - startLine \<ge> totalRange
              then Range (Position startLine 0) (Position (startLine + totalRange - 1) 0)
              else
                let startLine' = startLine - \<bar>lineCount - startLine - totalRange\<bar>
                in Range (Position startLine' 0) (Position (startLine' + totalRange - 1) 0))"

text \<open>
  How the editor reads a range: it holds the text from its start position up to, not
  including, its end position. So the lines that lie in a range as a whole run from its
  start line (from the next line, when the range starts after the first character of its
  start line) to the line before its end line; of the end line the range holds the
  characters before the end position, which are none when that position is at character 0.
\<close>

definition whole_lines :: "Range \<Rightarrow> int list" where
  "whole_lines r =
     (let first = (if character (start r) \<le> 0 then line (start r) else line (start r) + 1)
      in [first .. line (end_position r) - 1])"

section \<open>Strings\<close>

text \<open>
  The methods of \<open>String.prototype\<close> that the resolver calls, on \<open>char list\<close>.
  \<open>replace\<close> with a string pattern replaces the first occurrence only; the two
  replacement texts of the source contain no \<open>$\<close>, so no replacement pattern is
  expanded. \<open>trim\<close> removes white space and line terminators at both ends (here the
  ASCII ones: tab, line feed, vertical tab, form feed, carriage return, space).
  \<open>split\<close> is used with the one-character separator \<open>'\n'\<close> only, and always
  returns at least one piece.
\<close>

definition startsWith :: "string \<Rightarrow> string \<Rightarrow> bool" where
  "startsWith s p = (take (length p) s = p)"

fun replace :: "string \<Rightarrow> string \<Rightarrow> string \<Rightarrow> string" where
  "replace [] pat rep = (if pat = [] then rep else [])"
| "replace (c # cs) pat rep =
     (if startsWith (c # cs) pat then rep @ drop (length pat) (c # cs)
      else c # replace cs pat rep)"

definition isWhiteSpace :: "char \<Rightarrow> bool" where
  "isWhiteSpace c = (c \<in> {CHR 0x09, CHR 0x0A, CHR 0x0B, CHR 0x0C, CHR 0x0D, CHR 0x20})"

definition trim :: "string \<Rightarrow> string" where
  "trim s = rev (dropWhile isWhiteSpace (rev (dropWhile isWhiteSpace s)))"

fun split :: "string \<Rightarrow> char \<Rightarrow> string list" where
  "split [] sep = [[]]"
| "split (c # cs) sep =
     (if c = sep then [] # split cs sep
      else (case split cs sep of [] \<Rightarrow> [[c]] | piece # pieces \<Rightarrow> (c # piece) # pieces))"

section \<open>External calls\<close>

text \<open>
  The code suspends at three kinds of external call: \<open>exec\<close> (the promisified
  \<open>child_process.exec\<close>), \<open>fetch\<close> and \<open>resp.text()\<close>. A call is recorded with the
  arguments the code passes; an abort signal is identified with the address of the
  \<open>AbortController\<close> it belongs to. \<open>path.dirname\<close> is a function of the runtime and
  is taken as a parameter \<open>dirname\<close> wherever the code calls it.

  The promise of \<open>exec\<close> is fulfilled with the standard output when the process exits
  with code 0, and is rejected otherwise with an error whose \<open>code\<close> property is the
  exit code (a number), the name of a system error (a string), \<open>null\<close> when a signal
  killed the process, or is missing (\<open>undefined\<close>). The second field of a rejection is
  the text that the error shows in a log line.
\<close>

datatype request =
    Exec (cmd: string) (cwd: string) (signal: nat)
  | Fetch (url: string) (bearer: string) (body: obj) (signal: nat)
  | RespText

datatype event = Log string | Call request

datatype exec_outcome = ExecOk (stdout: string) | ExecErr (code: jsval) (shown: string)

datatype fetch_outcome = Response (ok: bool) | FetchErr string

datatype text_outcome = Text string | TextErr string

definition calls :: "event list \<Rightarrow> request list" where
  "calls evs = concat (map (\<lambda>e. case e of Call r \<Rightarrow> [r] | Log l \<Rightarrow> []) evs)"

section \<open>Module state\<close>

text \<open>
  The module variables. \<open>AbortController\<close> objects live in a store: address \<open>a\<close> holds
  the flag "aborted" of the controller allocated as the \<open>a\<close>-th one, and
  \<open>updateStateAbortController\<close> holds an address or is \<open>undefined\<close> (\<open>None\<close>).
\<close>

record globals =
  ignoredFiles :: "string set"
  knownGitHubs :: "string option \<rightharpoonup> string"
  prevState :: State
  updateStateAbortController :: "nat option"
  controllers :: "bool list"

definition initial_globals :: globals where
  "initial_globals =
     \<lparr>ignoredFiles = {}, knownGitHubs = Map.empty, prevState = initial_prevState,
      updateStateAbortController = None, controllers = []\<rparr>"

section \<open>The repository resolver (part_000)\<close>

text \<open>
  \<open>getGitRemotes\<close> after its \<open>exec\<close> of \<open>git remote\<close> has settled: the log lines
  it writes and the list it returns.
\<close>

definition getGitRemotes_cmd :: string where
  "getGitRemotes_cmd = ''git remote''"

fun getGitRemotes :: "exec_outcome \<Rightarrow> event list \<times> string list" where
  "getGitRemotes (ExecOk out) = ([], split (trim out) CHR 0x0A)"
| "getGitRemotes (ExecErr c err) = ([Log (''Get Git remotes: '' @ err)], [])"

text \<open>
  \<open>getGitRemoteURL\<close>: the command, and the part after its \<open>exec\<close> has settled. The
  loop over the lines returns at the first line that starts with \<open>git@github.com\<close>.
\<close>

definition getGitRemoteURL_cmd :: "string \<Rightarrow> string" where
  "getGitRemoteURL_cmd remote = ''git remote get-url --all '' @ remote"

fun getGitRemoteURL_loop :: "string list \<Rightarrow> string option" where
  "getGitRemoteURL_loop [] = None"
| "getGitRemoteURL_loop (u # urls) =
     (if startsWith u ''git@github.com''
      then Some (replace (replace u ''git@github.com:'' ''https://github.com/'') ''.git'' [])
      else getGitRemoteURL_loop urls)"

fun getGitRemoteURL :: "string \<Rightarrow> string \<Rightarrow> exec_outcome \<Rightarrow> event list \<times> string option" where
  "getGitRemoteURL dir remote (ExecOk out) = ([], getGitRemoteURL_loop (split (trim out) CHR 0x0A))"
| "getGitRemoteURL dir remote (ExecErr c err) =
     ([Log (''Get GitHub UR for '' @ remote @ '' in '' @ dir @ '': '' @ err)], None)"


text \<open>
  \<open>findGitHubURL\<close> is an async function: it runs until it returns or until an
  \<open>exec\<close> is pending. A pending resolution remembers its local variables. The
  workspace argument is what the caller read from \<open>vscode.workspace.name\<close>, a string
  or \<open>undefined\<close>; a \<open>Map\<close> takes either as a key.
\<close>

datatype resolution =
    Returned "string option"
  | RemotesPending "string option" string nat
  | RemoteURLPending "string option" string nat "string list" nat

text \<open>The head of the \<open>for\<close> loop at index \<open>i\<close>: the next lookup starts, or the loop ends.\<close>

definition findGitHubURL_loop ::
  "string option \<Rightarrow> string \<Rightarrow> nat \<Rightarrow> string list \<Rightarrow> nat \<Rightarrow> event list \<times> resolution" where
  "findGitHubURL_loop worksapce dir sig remotes i =
     (if i < length remotes
      then ([Call (Exec (getGitRemoteURL_cmd (remotes ! i)) dir sig)],
            RemoteURLPending worksapce dir sig remotes i)
      else ([], Returned None))"

definition findGitHubURL ::
  "(string \<Rightarrow> string) \<Rightarrow> string option \<Rightarrow> string \<Rightarrow> nat \<Rightarrow> globals
     \<Rightarrow> globals \<times> event list \<times> resolution" where
  "findGitHubURL dirname worksapce activeFilename sig g =
     (case knownGitHubs g worksapce of
        Some known \<Rightarrow> (g, [Log (known @ '' (looked up from cache)'')], Returned (Some known))
      | None \<Rightarrow>
          let dir = dirname activeFilename
          in (g, [Call (Exec getGitRemotes_cmd dir sig)], RemotesPending worksapce dir sig))"

fun findGitHubURL_resume ::
  "resolution \<Rightarrow> exec_outcome \<Rightarrow> globals \<Rightarrow> globals \<times> event list \<times> resolution" where
  "findGitHubURL_resume (Returned r) outcome g = (g, [], Returned r)"
| "findGitHubURL_resume (RemotesPending worksapce dir sig) outcome g =
     (let (logs, remotes) = getGitRemotes outcome;
          (evs, res) = findGitHubURL_loop worksapce dir sig remotes 0
      in (g, logs @ evs, res))"
| "findGitHubURL_resume (RemoteURLPending worksapce dir sig remotes i) outcome g =
     (let (logs, githubUrl) = getGitRemoteURL dir (remotes ! i) outcome
      in case githubUrl of
           Some u \<Rightarrow>
             (g\<lparr>knownGitHubs := (knownGitHubs g)(worksapce \<mapsto> u)\<rparr>, logs @ [Log u],
              Returned (Some u))
         | None \<Rightarrow>
             let (evs, res) = findGitHubURL_loop worksapce dir sig remotes (i + 1)
             in (g, logs @ evs, res))"

text \<open>
  A resolution run on its own, fed with the outcomes of its external calls in the order
  in which they settle. It stops when the resolver has returned or the outcomes are used
  up; the events of all its steps are collected.
\<close>

fun findGitHubURL_run ::
  "exec_outcome list \<Rightarrow> globals \<times> event list \<times> resolution
     \<Rightarrow> globals \<times> event list \<times> resolution" where
  "findGitHubURL_run [] st = st"
| "findGitHubURL_run (outcome # outcomes) (g, evs, Returned r) = (g, evs, Returned r)"
| "findGitHubURL_run (outcome # outcomes) (g, evs, res) =
     (let (g', evs', res') = findGitHubURL_resume res outcome g
      in findGitHubURL_run outcomes (g', evs @ evs', res'))"

section \<open>The poller\<close>

text \<open>
  What a tick reads from the editor: \<open>vscode.workspace.name\<close>, the active document
  (\<open>fileName\<close>, \<open>languageId\<close>, \<open>lineCount\<close>, \<open>getText\<close>) and the selection.
  \<open>getText\<close> belongs to the editor and is a field of the context. A tick gets
  \<open>None\<close> when \<open>vscode.window.activeTextEditor\<close> is \<open>undefined\<close>.
  \<open>vscode.workspace.name\<close> is \<open>undefined\<close> (\<open>None\<close>) when no folder or workspace
  is open. \<open>doc.fileName\<close> is read from the document object that the tick holds.
\<close>

record editor =
  workspace_name :: "string option"
  document_fileName :: string
  languageId :: string
  lineCount :: int
  getText :: "Range \<Rightarrow> string"
  selection :: Selection

definition snapshot :: "editor \<Rightarrow> State" where
  "snapshot e =
     (let view = getText e (getViewRange (selection e) (lineCount e))
      in \<lparr>workspace = workspace_name e,
          fileName = document_fileName e,
          language = languageId e,
          row = line (active (selection e)),
          col = character (active (selection e)),
          viewChunk = view\<rparr>)"

text \<open>
  \<open>pollState\<close> is an async function. A tick runs until it returns, throws, or waits
  for an external call; between two suspensions nothing else runs (an \<open>await\<close> of a
  promise that is settled already resumes before any timer or input/output callback, so
  it is no suspension here). A waiting tick remembers its local variables. Ticks overlap:
  every step takes the module state as it is when the step starts.
\<close>

datatype task =
    Finished
  | Threw
  | IgnoreCheckPending State string string
  | Resolving State string string resolution
  | FetchPending State
  | TextPending State

datatype settled =
    ExecSettled exec_outcome
  | FetchSettled fetch_outcome
  | TextSettled text_outcome

text \<open>\<open>updateStateAbortController.abort()\<close> when the variable is defined, and
  \<open>updateStateAbortController = new AbortController()\<close>.\<close>

definition abort_previous :: "globals \<Rightarrow> globals" where
  "abort_previous g =
     (case updateStateAbortController g of
        None \<Rightarrow> g
      | Some a \<Rightarrow> g\<lparr>controllers := (controllers g)[a := True]\<rparr>)"

definition new_AbortController :: "globals \<Rightarrow> globals" where
  "new_AbortController g =
     g\<lparr>controllers := controllers g @ [False],
       updateStateAbortController := Some (length (controllers g))\<rparr>"

definition check_ignore_cmd :: "string \<Rightarrow> string" where
  "check_ignore_cmd file = ''git check-ignore '' @ file @ '' -q''"

text \<open>
  The variable \<open>isIgnored\<close> after the \<open>try\<close> around \<open>exec\<close>: it stays
  \<open>undefined\<close> (\<open>None\<close>) when the promise is fulfilled, and is set in the \<open>catch\<close>.
  Reading the signal of the controller happens inside that \<open>try\<close>: were the
  module variable \<open>undefined\<close> there, the \<open>TypeError\<close> (which has no \<open>code\<close>)
  would be caught and the file taken as ignored.
\<close>

fun isIgnored :: "exec_outcome \<Rightarrow> bool option" where
  "isIgnored (ExecOk out) = None"
| "isIgnored (ExecErr c err) = Some (c = Undefined \<or> c \<noteq> Num 1)"

text \<open>How \<open>${err}\<close> shows \<open>new Error(text)\<close>.\<close>

definition shown_Error :: "string \<Rightarrow> string" where
  "shown_Error msg = (if msg = [] then ''Error'' else ''Error: '' @ msg)"

definition no_signal_TypeError :: string where
  "no_signal_TypeError = ''TypeError: Cannot read properties of undefined (reading signal)''"

subsection \<open>part_000\<close>

text \<open>
  From \<open>prevState = curState\<close> to the call of \<open>fetch\<close>. The body is
  \<open>JSON.stringify({repository, ...curState})\<close>; the signal is read from the module
  variable inside the \<open>try\<close>.
\<close>

definition pollState_report ::
  "string \<Rightarrow> string \<Rightarrow> State \<Rightarrow> string option \<Rightarrow> globals \<Rightarrow> globals \<times> event list \<times> task" where
  "pollState_report target token curState repository g =
     (let g1 = g\<lparr>prevState := curState\<rparr>;
          repositoryValue = (case repository of None \<Rightarrow> Undefined | Some u \<Rightarrow> Str u)
      in case updateStateAbortController g1 of
           None \<Rightarrow>
             (g1, [Log ''Updating state'', Log (''Something went wrong: '' @ no_signal_TypeError)],
              Finished)
         | Some sig \<Rightarrow>
             (g1,
              [Log ''Updating state'',
               Call (Fetch target token
                 (JSON_stringify (spread [(''repository'', repositoryValue)] (State_obj curState)))
                 sig)],
              FetchPending curState))"

text \<open>After a step of the resolver: the tick goes on when the resolver has returned.\<close>

definition pollState_resolved ::
  "string \<Rightarrow> string \<Rightarrow> State \<Rightarrow> globals \<times> event list \<times> resolution
     \<Rightarrow> globals \<times> event list \<times> task" where
  "pollState_resolved target token curState st =
     (case st of
        (g, evs, Returned repository) \<Rightarrow>
          (let (g', evs', t) = pollState_report target token curState repository g
           in (g', evs @ evs', t))
      | (g, evs, res) \<Rightarrow> (g, evs, Resolving curState target token res))"

text \<open>
  The call \<open>findGitHubURL(vscode.workspace.name, doc.fileName, signal)\<close>. The workspace
  name is read from the editor again at this point (\<open>workspaceName\<close>), not taken from
  \<open>curState\<close>; the signal is read from the module variable.
\<close>

definition pollState_resolve ::
  "(string \<Rightarrow> string) \<Rightarrow> string \<Rightarrow> string \<Rightarrow> State \<Rightarrow> string option \<Rightarrow> globals
     \<Rightarrow> globals \<times> event list \<times> task" where
  "pollState_resolve dirname target token curState workspaceName g =
     (case updateStateAbortController g of
        None \<Rightarrow> (g, [], Threw)
      | Some sig \<Rightarrow>
          pollState_resolved target token curState
            (findGitHubURL dirname workspaceName (fileName curState) sig g))"

text \<open>
  The tick from the timer to its first suspension. When the file has not changed, the
  resolver is called in this step, and the second read of \<open>vscode.workspace.name\<close>
  gives what the first gave.
\<close>

definition pollState ::
  "(string \<Rightarrow> string) \<Rightarrow> string \<Rightarrow> string \<Rightarrow> editor option \<Rightarrow> globals
     \<Rightarrow> globals \<times> event list \<times> task" where
  "pollState dirname target token ed g =
     (case ed of
        None \<Rightarrow> (g, [], Threw)
      | Some e \<Rightarrow>
          let curState = snapshot e
          in if shallowEqual (State_obj (prevState g)) (State_obj curState)
             then (g, [], Finished)
             else if fileName curState \<in> ignoredFiles g
             then (g,
                   [Log ''not equal'',
                    Log (fileName curState @ '' is ignored (looked up from cache)'')],
                   Finished)
             else
               let g1 = new_AbortController (abort_previous g);
                   didChangeFile = (fileName (prevState g1) \<noteq> fileName curState)
               in if didChangeFile
                  then (case updateStateAbortController g1 of
                          None \<Rightarrow>
                            (g1\<lparr>ignoredFiles := insert (fileName curState) (ignoredFiles g1)\<rparr>,
                             [Log ''not equal'', Log (fileName curState @ '' is ignored'')],
                             Finished)
                        | Some sig \<Rightarrow>
                            (g1,
                             [Log ''not equal'',
                              Call (Exec (check_ignore_cmd (fileName curState))
                                      (dirname (fileName curState)) sig)],
                             IgnoreCheckPending curState target token))
                  else
                    let (g2, evs, t) =
                          pollState_resolve dirname target token curState (workspace_name e) g1
                    in (g2, Log ''not equal'' # evs, t))"

text \<open>
  The tick from the settling of the call it waits for to its next suspension.
  \<open>workspaceName\<close> is \<open>vscode.workspace.name\<close> at the time of this step. \<open>None\<close>:
  the outcome is not of the kind of call the tick waits for, or the tick has ended.
\<close>

fun pollState_resume ::
  "(string \<Rightarrow> string) \<Rightarrow> string option \<Rightarrow> task \<Rightarrow> settled \<Rightarrow> globals
     \<Rightarrow> (globals \<times> event list \<times> task) option" where
  "pollState_resume dirname workspaceName (IgnoreCheckPending curState target token) (ExecSettled outcome) g =
     (let ig = isIgnored outcome
      in if ig = None \<or> ig = Some True
         then Some (g\<lparr>ignoredFiles := insert (fileName curState) (ignoredFiles g)\<rparr>,
                    [Log (fileName curState @ '' is ignored'')], Finished)
         else Some (pollState_resolve dirname target token curState workspaceName g))"
| "pollState_resume dirname workspaceName (Resolving curState target token (Returned r)) (ExecSettled outcome) g =
     None"
| "pollState_resume dirname workspaceName (Resolving curState target token res) (ExecSettled outcome) g =
     Some (pollState_resolved target token curState (findGitHubURL_resume res outcome g))"
| "pollState_resume dirname workspaceName (FetchPending curState) (FetchSettled (Response okay)) g =
     (if \<not> okay then Some (g, [Call RespText], TextPending curState)
      else Some (g, [], Finished))"
| "pollState_resume dirname workspaceName (FetchPending curState) (FetchSettled (FetchErr err)) g =
     Some (g, [Log (''Something went wrong: '' @ err)], Finished)"
| "pollState_resume dirname workspaceName (TextPending curState) (TextSettled (Text t)) g =
     Some (g, [Log (''Something went wrong: '' @ shown_Error t)], Finished)"
| "pollState_resume dirname workspaceName (TextPending curState) (TextSettled (TextErr err)) g =
     Some (g, [Log (''Something went wrong: '' @ err)], Finished)"
| "pollState_resume dirname workspaceName t s g = None"

text \<open>
  A tick fed with the outcomes of its calls, in the order in which they settle, each
  with the workspace name that the editor has at that time.
\<close>

fun pollState_run ::
  "(string \<Rightarrow> string) \<Rightarrow> (string option \<times> settled) list \<Rightarrow> globals \<times> event list \<times> task
     \<Rightarrow> globals \<times> event list \<times> task" where
  "pollState_run dirname [] st = st"
| "pollState_run dirname ((workspaceName, s) # ss) (g, evs, t) =
     (case pollState_resume dirname workspaceName t s g of
        None \<Rightarrow> (g, evs, t)
      | Some (g', evs', t') \<Rightarrow> pollState_run dirname ss (g', evs @ evs', t'))"

subsection \<open>extension.js\<close>

text \<open>
  The pipeline of \<open>extension.js\<close> has no resolver: \<open>prevState\<close> is written and
  the controller is replaced right after the change detector, and the body is
  \<open>JSON.stringify(curState)\<close>.
\<close>

definition pollState_ext_report ::
  "string \<Rightarrow> string \<Rightarrow> State \<Rightarrow> globals \<Rightarrow> globals \<times> event list \<times> task" where
  "pollState_ext_report target token curState g =
     (case updateStateAbortController g of
        None \<Rightarrow> (g, [Log (''Something went wrong: '' @ no_signal_TypeError)], Finished)
      | Some sig \<Rightarrow>
          (g, [Call (Fetch target token (JSON_stringify (State_obj curState)) sig)],
           FetchPending curState))"

definition pollState_ext ::
  "(string \<Rightarrow> string) \<Rightarrow> string \<Rightarrow> string \<Rightarrow> editor option \<Rightarrow> globals
     \<Rightarrow> globals \<times> event list \<times> task" where
  "pollState_ext dirname target token ed g =
     (case ed of
        None \<Rightarrow> (g, [], Threw)
      | Some e \<Rightarrow>
          let curState = snapshot e
          in if shallowEqual (State_obj (prevState g)) (State_obj curState)
             then (g, [], Finished)
             else
               let didChangeFile = (fileName (prevState g) \<noteq> fileName curState);
                   g1 = new_AbortController (abort_previous (g\<lparr>prevState := curState\<rparr>))
               in if fileName curState \<in> ignoredFiles g1
                  then (g1,
                        [Log ''Updating state'',
                         Log (fileName curState @ '' is ignored (looked up from cache)'')],
                        Finished)
                  else if didChangeFile
                  then (case updateStateAbortController g1 of
                          None \<Rightarrow>
                            (g1\<lparr>ignoredFiles := insert (fileName curState) (ignoredFiles g1)\<rparr>,
                             [Log ''Updating state'', Log (fileName curState @ '' is ignored'')],
                             Finished)
                        | Some sig \<Rightarrow>
                            (g1,
                             [Log ''Updating state'',
                              Call (Exec (check_ignore_cmd (fileName curState))
                                      (dirname (fileName curState)) sig)],
                             IgnoreCheckPending curState target token))
                  else
                    let (g2, evs, t) = pollState_ext_report target token curState g1
                    in (g2, Log ''Updating state'' # evs, t))"

fun pollState_ext_resume ::
  "task \<Rightarrow> settled \<Rightarrow> globals \<Rightarrow> (globals \<times> event list \<times> task) option" where
  "pollState_ext_resume (IgnoreCheckPending curState target token) (ExecSettled outcome) g =
     (let ig = isIgnored outcome
      in if ig = None \<or> ig = Some True
         then Some (g\<lparr>ignoredFiles := insert (fileName curState) (ignoredFiles g)\<rparr>,
                    [Log (fileName curState @ '' is ignored'')], Finished)
         else Some (pollState_ext_report target token curState g))"
| "pollState_ext_resume (FetchPending curState) (FetchSettled (Response okay)) g =
     (if \<not> okay then Some (g, [Call RespText], TextPending curState)
      else Some (g, [], Finished))"
| "pollState_ext_resume (FetchPending curState) (FetchSettled (FetchErr err)) g =
     Some (g, [Log (''Something went wrong: '' @ err)], Finished)"
| "pollState_ext_resume (TextPending curState) (TextSettled (Text t)) g =
     Some (g, [Log (''Something went wrong: '' @ shown_Error t)], Finished)"
| "pollState_ext_resume (TextPending curState) (TextSettled (TextErr err)) g =
     Some (g, [Log (''Something went wrong: '' @ err)], Finished)"
| "pollState_ext_resume t s g = None"

section \<open>Observations on a step of a tick\<close>

text \<open>The bodies of the reports that a step sends, in order.\<close>

definition report_bodies :: "event list \<Rightarrow> obj list" where
  "report_bodies evs =
     concat (map (\<lambda>r. case r of Fetch u tk b sg \<Rightarrow> [b] | Exec c d sg \<Rightarrow> [] | RespText \<Rightarrow> [])
       (calls evs))"

text \<open>
  The members of a report body as they are stated for the reports below: \<open>repository\<close>
  first when the resolver returned a URL, \<open>workspace\<close> when the workspace has a name,
  then the five fields that every snapshot has.
\<close>

definition expected_body :: "string option \<Rightarrow> State \<Rightarrow> obj" where
  "expected_body repository s =
     (case repository of None \<Rightarrow> [] | Some u \<Rightarrow> [(''repository'', Str u)]) @
     (case workspace s of None \<Rightarrow> [] | Some w \<Rightarrow> [(''workspace'', Str w)]) @
     [(''fileName'', Str (fileName s)),
      (''language'', Str (language s)),
      (''row'', Num (row s)),
      (''col'', Num (col s)),
      (''viewChunk'', Str (viewChunk s))]"

text \<open>The local variable \<open>curState\<close> of a waiting tick.\<close>

fun curState_of :: "task \<Rightarrow> State option" where
  "curState_of Finished = None"
| "curState_of Threw = None"
| "curState_of (IgnoreCheckPending curState target token) = Some curState"
| "curState_of (Resolving curState target token res) = Some curState"
| "curState_of (FetchPending curState) = Some curState"
| "curState_of (TextPending curState) = Some curState"

section \<open>A concrete session\<close>

text \<open>
  An editor on line 1, column 2 of a three-line JavaScript file in the workspace
  \<open>proj\<close>, and the scenarios that the closed theorems below evaluate.
\<close>

definition ex_dirname :: "string \<Rightarrow> string" where
  "ex_dirname file = ''C:/proj''"

definition ex_editor :: editor where
  "ex_editor =
     \<lparr>workspace_name = Some ''proj'', document_fileName = ''C:/proj/a.js'',
      languageId = ''javascript'', lineCount = 3, getText = (\<lambda>r. ''let x''),
      selection = Selection (Position 1 2)\<rparr>"

definition ex_State :: State where
  "ex_State =
     \<lparr>workspace = Some ''proj'', fileName = ''C:/proj/a.js'', language = ''javascript'',
      row = 1, col = 2, viewChunk = ''let x''\<rparr>"

text \<open>The module state once a first tick has installed its controller.\<close>

definition ex_globals :: globals where
  "ex_globals = initial_globals\<lparr>updateStateAbortController := Some 0, controllers := [False]\<rparr>"


text \<open>
  The first tick of a session in that checkout: the file is not ignored (exit code 1),
  the resolver finds no GitHub remote, the report is sent.
\<close>

definition ex_tick :: "globals \<times> event list \<times> task" where
  "ex_tick =
     pollState_run ex_dirname
       [(Some ''proj'', ExecSettled (ExecErr (Num 1) ''Error: Command failed'')),
        (Some ''proj'', ExecSettled (ExecOk ''origin'')),
        (Some ''proj'', ExecSettled (ExecOk ''git@gitlab.com:acme/widgets.git''))]
       (pollState ex_dirname ''http://collector'' ''secret'' (Some ex_editor) initial_globals)"

text \<open>
  The first tick of a session in which the same file is open with no folder or workspace
  (\<open>vscode.workspace.name\<close> is \<open>undefined\<close>), in a checkout whose remote
  \<open>origin\<close> points to GitHub.
\<close>

definition ex_tick_no_folder :: "globals \<times> event list \<times> task" where
  "ex_tick_no_folder =
     pollState_run ex_dirname
       [(None, ExecSettled (ExecErr (Num 1) ''Error: Command failed'')),
        (None, ExecSettled (ExecOk ''origin'')),
        (None, ExecSettled (ExecOk ''git@github.com:acme/widgets.git''))]
       (pollState ex_dirname ''http://collector'' ''secret''
          (Some (ex_editor\<lparr>workspace_name := None\<rparr>)) initial_globals)"

section \<open>Properties of the view window\<close>

text \<open>
  For a document of \<open>N \<ge> 11\<close> lines and a cursor line \<open>L\<close> with \<open>0 \<le> L < N\<close>, the
  two positions of the range that \<open>getViewRange\<close> returns are at character 0, the end
  line is the start line plus 10, both lines lie in \<open>[0, N)\<close>, and the cursor line is
  not before the start line and not after the end line.
\<close>

lemma getViewRange_bounds:
  assumes "11 \<le> N" and "0 \<le> L" and "L < N"
  shows "line (end_position (getViewRange (Selection (Position L c)) N))
           = line (start (getViewRange (Selection (Position L c)) N)) + 10
       \<and> 0 \<le> line (start (getViewRange (Selection (Position L c)) N))
       \<and> line (end_position (getViewRange (Selection (Position L c)) N)) < N
       \<and> line (start (getViewRange (Selection (Position L c)) N)) \<le> L
       \<and> L \<le> line (end_position (getViewRange (Selection (Position L c)) N))
       \<and> character (start (getViewRange (Selection (Position L c)) N)) = 0
       \<and> character (end_position (getViewRange (Selection (Position L c)) N)) = 0"
  using assms by (auto simp: getViewRange_def Let_def max_def)

lemma whole_lines_at_character_0:
  "whole_lines (Range (Position s 0) (Position e 0)) = [s .. e - 1]"
  by (simp add: whole_lines_def)

text \<open>
  Claim C5. The claim says that for \<open>N \<ge> 11\<close> and a cursor line \<open>L\<close> in
  \<open>[0, N)\<close> the window has exactly 11 lines and holds the cursor line. The code ends
  the range at character 0 of line \<open>start + totalRange - 1\<close>, so the range stops before
  the eleventh line: it holds ten whole lines and no character of the eleventh, for every
  such \<open>N\<close> and \<open>L\<close>. The cursor line is one of the ten lines exactly when the cursor is
  not on the last line of the document. All ten lines lie in \<open>[0, N)\<close>.
\<close>

theorem getViewRange_window_of_ten_lines:
  assumes "11 \<le> N" and "0 \<le> L" and "L < N"
  shows "length (whole_lines (getViewRange (Selection (Position L c)) N)) = 10
       \<and> character (end_position (getViewRange (Selection (Position L c)) N)) = 0
       \<and> (L \<in> set (whole_lines (getViewRange (Selection (Position L c)) N))) = (L \<noteq> N - 1)
       \<and> set (whole_lines (getViewRange (Selection (Position L c)) N)) \<subseteq> {0 ..< N}"
proof -
  define s where "s = (if 11 \<le> N - max 0 (L - 5) then max 0 (L - 5) else N - 11)"
  have r: "getViewRange (Selection (Position L c)) N
        = Range (Position s 0) (Position (s + 10) 0)"
    using assms by (auto simp: getViewRange_def Let_def s_def max_def)
  have b: "0 \<le> s" "s + 10 < N" "s \<le> L" "L \<le> s + 10" "(L = s + 10) = (L = N - 1)"
    using assms by (auto simp: s_def max_def split: if_splits)
  show ?thesis unfolding r whole_lines_at_character_0 using b by auto
qed

theorem getViewRange_window_of_ten_lines_witness:
  "(11::int) \<le> 20 \<and> (0::int) \<le> 19 \<and> (19::int) < 20
   \<and> getViewRange (Selection (Position 19 3)) 20 = Range (Position 9 0) (Position 19 0)
   \<and> whole_lines (getViewRange (Selection (Position 19 3)) 20) = [9, 10, 11, 12, 13, 14, 15, 16, 17, 18]
   \<and> length (whole_lines (getViewRange (Selection (Position 19 3)) 20)) = 10
   \<and> 19 \<notin> set (whole_lines (getViewRange (Selection (Position 19 3)) 20))"
  using getViewRange_window_of_ten_lines [of 20 19 3]
  by (simp add: getViewRange_def whole_lines_def upto_rec1)

text \<open>
  Claim C6. For a document of \<open>N < 11\<close> lines, whatever the cursor position,
  \<open>getViewRange\<close> returns the range from line 0, character 0 to line \<open>N\<close>,
  character 0: the lines \<open>[0, N)\<close>, the whole document.
\<close>

theorem getViewRange_short_document:
  assumes "0 \<le> N" and "N < 11"
  shows "getViewRange sel N = Range (Position 0 0) (Position N 0)"
  using assms by (simp add: getViewRange_def)

theorem getViewRange_short_document_witness:
  "(0::int) \<le> 3 \<and> (3::int) < 11
   \<and> getViewRange (Selection (Position 1 2)) 3 = Range (Position 0 0) (Position 3 0)"
  using getViewRange_short_document [of 3 "Selection (Position 1 2)"] by simp

text \<open>Read as the editor reads it, that range holds every line of the document.\<close>

lemma getViewRange_short_document_lines:
  "0 \<le> N \<Longrightarrow> N < 11 \<Longrightarrow> whole_lines (getViewRange sel N) = [0 .. N - 1]"
  by (simp add: getViewRange_def whole_lines_def)

section \<open>Properties of the change detector\<close>

lemma shallowEqual_State: "shallowEqual (State_obj s1) (State_obj s2) = (s1 = s2)"
  by (cases s1, cases s2)
     (auto simp: shallowEqual_def State_obj_def keys_def getprop_def split: option.splits)

lemma snapshot_ex_editor: "snapshot ex_editor = ex_State"
  by (simp add: snapshot_def ex_editor_def ex_State_def getViewRange_def)

text \<open>
  Claim C7. The change detector is false on a snapshot and itself, and true on two
  snapshots that differ in exactly one of the six fields.
\<close>

theorem changed_reflexive_and_sensitive:
  "\<not> changed s s \<and> (differing_fields s1 s2 = 1 \<longrightarrow> changed s1 s2)"
  by (auto simp: changed_def shallowEqual_State differing_fields_def)

theorem changed_reflexive_and_sensitive_witness:
  "\<not> changed ex_State ex_State
   \<and> differing_fields ex_State (ex_State\<lparr>col := 3\<rparr>) = 1
   \<and> changed ex_State (ex_State\<lparr>col := 3\<rparr>)"
  using changed_reflexive_and_sensitive [of ex_State ex_State "ex_State\<lparr>col := 3\<rparr>"]
  by (simp add: differing_fields_def ex_State_def)

section \<open>Properties of the repository resolver\<close>

subsection \<open>Rewriting a remote URL\<close>

text \<open>
  Claim C3. The claim says that an accepted URL is rewritten by replacing the prefix
  \<open>git@github.com:\<close> and stripping a trailing \<open>.git\<close>. The code calls
  \<open>url.replace('.git', '')\<close>, which removes the first \<open>.git\<close> of the URL wherever
  it stands. For the remote of a GitHub Pages repository,
  \<open>git@github.com:acme/acme.github.io.git\<close>, the code returns
  \<open>https://github.com/acme/acmehub.io.git\<close> with the \<open>.git\<close> of \<open>.github\<close> removed
  and the suffix kept, where the claim gives \<open>https://github.com/acme/acme.github.io\<close>.
  The two URLs that the claim names are handled as it says.
\<close>

theorem getGitRemoteURL_first_dot_git:
  "getGitRemoteURL dir remote (ExecOk ''git@github.com:acme/acme.github.io.git'')
     = ([], Some ''https://github.com/acme/acmehub.io.git'')
   \<and> getGitRemoteURL dir remote (ExecOk ''git@github.com:acme/widgets.git'')
     = ([], Some ''https://github.com/acme/widgets'')
   \<and> getGitRemoteURL dir remote (ExecOk ''git@gitlab.com:acme/widgets.git'') = ([], None)"
  by (simp add: trim_def isWhiteSpace_def startsWith_def)

subsection \<open>Enumerating the remotes\<close>

lemma split_not_Nil: "split s sep \<noteq> []"
  by (induction s) (auto split: list.splits)

text \<open>
  Claim C9. When \<open>git remote\<close> succeeds with empty output, \<open>getGitRemotes\<close> returns
  the one-element list holding the empty string; the resolver then makes one lookup,
  \<open>git remote get-url --all\<close> followed by the empty remote name, and whatever the
  outcome of that lookup it returns without a further call. \<open>getGitRemotes\<close> returns the
  empty list exactly when the enumeration command fails.
\<close>

theorem getGitRemotes_empty_output:
  "getGitRemotes (ExecOk []) = ([], [[]])
   \<and> findGitHubURL_resume (RemotesPending ws dir sg) (ExecOk []) g
       = (g, [Call (Exec ''git remote get-url --all '' dir sg)],
          RemoteURLPending ws dir sg [[]] 0)
   \<and> calls (fst (snd (findGitHubURL_resume (RemoteURLPending ws dir sg [[]] 0) outcome g))) = []
   \<and> (\<exists>r. snd (snd (findGitHubURL_resume (RemoteURLPending ws dir sg [[]] 0) outcome g))
            = Returned r)
   \<and> ((snd (getGitRemotes outcome2) = []) = (\<exists>c err. outcome2 = ExecErr c err))"
proof -
  have 1: "getGitRemotes (ExecOk []) = ([], [[]])"
    by (simp add: trim_def)
  have 2: "findGitHubURL_resume (RemotesPending ws dir sg) (ExecOk []) g
       = (g, [Call (Exec ''git remote get-url --all '' dir sg)],
          RemoteURLPending ws dir sg [[]] 0)"
    by (simp add: trim_def findGitHubURL_loop_def getGitRemoteURL_cmd_def)
  have 3: "calls (fst (snd (findGitHubURL_resume (RemoteURLPending ws dir sg [[]] 0) outcome g))) = []
     \<and> (\<exists>r. snd (snd (findGitHubURL_resume (RemoteURLPending ws dir sg [[]] 0) outcome g))
            = Returned r)"
    by (cases outcome)
       (auto simp: findGitHubURL_loop_def calls_def split: option.splits prod.splits)
  have 4: "(snd (getGitRemotes outcome2) = []) = (\<exists>c err. outcome2 = ExecErr c err)"
    by (cases outcome2) (simp_all add: split_not_Nil)
  show ?thesis using 1 2 3 4 by blast
qed

subsection \<open>The cache\<close>

lemma findGitHubURL_globals: "findGitHubURL d w f sg g = (g', evs, r) \<Longrightarrow> g' = g"
  by (auto simp: findGitHubURL_def Let_def split: option.splits)

lemma findGitHubURL_resume_globals:
  "findGitHubURL_resume res out g = (g', evs, r) \<Longrightarrow>
     g' = g \<or> (\<exists>w u. r = Returned (Some u) \<and> g' = g\<lparr>knownGitHubs := (knownGitHubs g)(w \<mapsto> u)\<rparr>)"
  by (cases res)
     (auto simp: Let_def findGitHubURL_loop_def split: prod.splits option.splits if_splits)

lemma findGitHubURL_run_Returned:
  "findGitHubURL_run outs (g, evs, Returned r) = (g, evs, Returned r)"
  by (cases outs) simp_all

lemma findGitHubURL_run_pending:
  assumes "\<forall>r. res \<noteq> Returned r" and "findGitHubURL_resume res out g = (g1, evs1, r1)"
  shows "findGitHubURL_run (out # outs) (g, evs, res) = findGitHubURL_run outs (g1, evs @ evs1, r1)"
  using assms by (cases res) simp_all

text \<open>A resolution that returns \<open>undefined\<close> has written nothing.\<close>

lemma findGitHubURL_run_None:
  "findGitHubURL_run outs (g, evs, res) = (g', evs', Returned None) \<Longrightarrow> g' = g"
proof (induction outs arbitrary: evs res)
  case Nil
  then show ?case by simp
next
  case (Cons out outs)
  consider (returned) r where "res = Returned r" | (pending) "\<forall>r. res \<noteq> Returned r"
    by (cases res) auto
  then show ?case
  proof cases
    case returned
    then show ?thesis using Cons.prems by (simp add: findGitHubURL_run_Returned)
  next
    case pending
    obtain g1 evs1 r1 where step: "findGitHubURL_resume res out g = (g1, evs1, r1)"
      using prod_cases3 by blast
    have run: "findGitHubURL_run outs (g1, evs @ evs1, r1) = (g', evs', Returned None)"
      using findGitHubURL_run_pending [OF pending step, of outs evs] Cons.prems by simp
    from findGitHubURL_resume_globals [OF step] show ?thesis
    proof
      assume "g1 = g"
      with run have "findGitHubURL_run outs (g, evs @ evs1, r1) = (g', evs', Returned None)"
        by simp
      then show ?thesis by (rule Cons.IH)
    next
      assume "\<exists>w u. r1 = Returned (Some u) \<and> g1 = g\<lparr>knownGitHubs := (knownGitHubs g)(w \<mapsto> u)\<rparr>"
      then obtain u where "r1 = Returned (Some u)" by blast
      with run show ?thesis by (simp add: findGitHubURL_run_Returned)
    qed
  qed
qed










section \<open>Properties of the poller\<close>

subsection \<open>What the steps of a tick leave alone\<close>

lemma pollState_report_rest:
  "pollState_report target token cur repo g = (g', evs, t) \<Longrightarrow>
     ignoredFiles g' = ignoredFiles g \<and> knownGitHubs g' = knownGitHubs g \<and> prevState g' = cur \<and>
     updateStateAbortController g' = updateStateAbortController g \<and> controllers g' = controllers g"
  by (auto simp: pollState_report_def Let_def split: option.splits)

lemma pollState_resolved_rest:
  "pollState_resolved target token cur (g, evs, res) = (g', evs', t) \<Longrightarrow>
     ignoredFiles g' = ignoredFiles g \<and> knownGitHubs g' = knownGitHubs g \<and>
     updateStateAbortController g' = updateStateAbortController g \<and> controllers g' = controllers g"
  by (cases res) (auto simp: pollState_resolved_def split: prod.splits dest: pollState_report_rest)

lemma pollState_resolve_rest:
  assumes "pollState_resolve dirname target token cur wsn g = (g', evs', t)"
  shows "ignoredFiles g' = ignoredFiles g \<and> knownGitHubs g' = knownGitHubs g \<and>
     updateStateAbortController g' = updateStateAbortController g \<and> controllers g' = controllers g"
proof -
  define ctl where "ctl = updateStateAbortController g"
  show ?thesis
  proof (cases ctl)
    case None
    with assms show ?thesis by (simp add: pollState_resolve_def ctl_def)
  next
    case (Some sg)
    obtain g1 evs1 r1
      where f: "findGitHubURL dirname wsn (fileName cur) sg g = (g1, evs1, r1)"
      using prod_cases3 by blast
    have "g1 = g" using findGitHubURL_globals [OF f] .
    with assms Some f show ?thesis
      using pollState_resolved_rest [of target token cur g evs1 r1 g' evs' t]
      by (simp add: pollState_resolve_def ctl_def)
  qed
qed

subsection \<open>The ignore check\<close>

text \<open>
  Claim C1. The outcome of \<open>git check-ignore\<close> is read as follows, in the pipeline of
  part_000 and in the pipeline of extension.js. Exit code 0 (the promise is fulfilled):
  ignored. Exit code 1: not ignored; the tick goes on to the resolver (part_000) or to
  the report (extension.js) and the ignore cache is as it was. Any other rejection,
  whatever its \<open>code\<close> (another number, a system error name, \<open>null\<close>, missing): ignored.
  On every ignored outcome the file name is added to \<open>ignoredFiles\<close> and the tick ends
  with one log line and no call, so nothing is reported.
\<close>

theorem ignore_check_exit_code:
  assumes "c \<noteq> Num 1"
  shows "pollState_resume dirname wsn (IgnoreCheckPending cur target token) (ExecSettled (ExecOk out)) g
           = Some (g\<lparr>ignoredFiles := insert (fileName cur) (ignoredFiles g)\<rparr>,
                   [Log (fileName cur @ '' is ignored'')], Finished)
       \<and> pollState_resume dirname wsn (IgnoreCheckPending cur target token)
             (ExecSettled (ExecErr c err)) g
           = Some (g\<lparr>ignoredFiles := insert (fileName cur) (ignoredFiles g)\<rparr>,
                   [Log (fileName cur @ '' is ignored'')], Finished)
       \<and> pollState_resume dirname wsn (IgnoreCheckPending cur target token)
             (ExecSettled (ExecErr (Num 1) err)) g
           = Some (pollState_resolve dirname target token cur wsn g)
       \<and> ignoredFiles (fst (pollState_resolve dirname target token cur wsn g)) = ignoredFiles g
       \<and> pollState_ext_resume (IgnoreCheckPending cur target token) (ExecSettled (ExecOk out)) g
           = Some (g\<lparr>ignoredFiles := insert (fileName cur) (ignoredFiles g)\<rparr>,
                   [Log (fileName cur @ '' is ignored'')], Finished)
       \<and> pollState_ext_resume (IgnoreCheckPending cur target token)
             (ExecSettled (ExecErr c err)) g
           = Some (g\<lparr>ignoredFiles := insert (fileName cur) (ignoredFiles g)\<rparr>,
                   [Log (fileName cur @ '' is ignored'')], Finished)
       \<and> pollState_ext_resume (IgnoreCheckPending cur target token)
             (ExecSettled (ExecErr (Num 1) err)) g
           = Some (pollState_ext_report target token cur g)
       \<and> ignoredFiles (fst (pollState_ext_report target token cur g)) = ignoredFiles g"
proof -
  obtain g' evs' t where r: "pollState_resolve dirname target token cur wsn g = (g', evs', t)"
    using prod_cases3 by blast
  have 1: "ignoredFiles (fst (pollState_resolve dirname target token cur wsn g)) = ignoredFiles g"
    using pollState_resolve_rest [OF r] r by simp
  have 2: "ignoredFiles (fst (pollState_ext_report target token cur g)) = ignoredFiles g"
    by (simp add: pollState_ext_report_def split: option.splits)
  show ?thesis using assms 1 2 by simp
qed

lemmas ex_eval = ex_dirname_def initial_globals_def ex_globals_def ex_State_def
  pollState_def pollState_resolve_def pollState_resolved_def pollState_report_def
  findGitHubURL_def findGitHubURL_loop_def getGitRemotes_cmd_def getGitRemoteURL_cmd_def
  check_ignore_cmd_def new_AbortController_def abort_previous_def
  trim_def isWhiteSpace_def startsWith_def Let_def
  shallowEqual_def keys_def getprop_def initial_prevState_def JSON_stringify_def State_obj_def

theorem ignore_check_exit_code_witness:
  "Num 128 \<noteq> Num 1
   \<and> pollState_resume ex_dirname (Some ''proj'') (IgnoreCheckPending ex_State ''http://collector'' ''secret'')
        (ExecSettled (ExecErr (Num 128) ''Error: Command failed'')) ex_globals
       = Some (ex_globals\<lparr>ignoredFiles := {''C:/proj/a.js''}\<rparr>,
               [Log ''C:/proj/a.js is ignored''], Finished)
   \<and> pollState_resume ex_dirname (Some ''proj'') (IgnoreCheckPending ex_State ''http://collector'' ''secret'')
        (ExecSettled (ExecErr (Num 1) ''Error: Command failed'')) ex_globals
       = Some (ex_globals, [Call (Exec ''git remote'' ''C:/proj'' 0)],
               Resolving ex_State ''http://collector'' ''secret''
                 (RemotesPending (Some ''proj'') ''C:/proj'' 0))"
  using ignore_check_exit_code [where c = "Num 128" and dirname = ex_dirname
      and wsn = "Some ''proj''" and cur = ex_State and target = "''http://collector''"
      and token = "''secret''" and out = "[]" and g = ex_globals
      and err = "''Error: Command failed''"]
  by (simp add: ex_eval)

subsection \<open>The cancellation handle\<close>

text \<open>
  Claim C10. In the pipeline of part_000, a tick that ends at the unchanged-state gate or
  at the ignore-cache gate leaves the whole module state as it was, so it neither aborts
  the controller in \<open>updateStateAbortController\<close> nor installs a new one, and it makes
  no call. A tick that passes both gates aborts the controller that the variable holds (if
  any) and stores a fresh one, not aborted, in the variable; this is the state of the
  controllers when the tick first suspends or ends.
\<close>

theorem gates_leave_controller:
  assumes "pollState dirname target token (Some e) g = (g', evs, t')"
  shows "(if \<not> changed (prevState g) (snapshot e) \<or> fileName (snapshot e) \<in> ignoredFiles g
          then g' = g \<and> t' = Finished \<and> calls evs = []
          else controllers g' =
                 (case updateStateAbortController g of
                    None \<Rightarrow> controllers g
                  | Some a \<Rightarrow> (controllers g)[a := True]) @ [False]
               \<and> updateStateAbortController g' = Some (length (controllers g)))"
proof -
  define gated
    where "gated = (\<not> changed (prevState g) (snapshot e) \<or> fileName (snapshot e) \<in> ignoredFiles g)"
  show ?thesis
  proof (cases gated)
    case True
    then show ?thesis using assms
      by (auto simp: gated_def pollState_def changed_def Let_def calls_def split: if_splits)
  next
    case False
    define g1 where "g1 = new_AbortController (abort_previous g)"
    have c1: "controllers g1 = (case updateStateAbortController g of
                      None \<Rightarrow> controllers g
                    | Some a \<Rightarrow> (controllers g)[a := True]) @ [False]"
      and u1: "updateStateAbortController g1 = Some (length (controllers g))"
      by (auto simp: g1_def new_AbortController_def abort_previous_def split: option.splits)
    define didChangeFile where "didChangeFile = (fileName (prevState g1) \<noteq> fileName (snapshot e))"
    have "controllers g' = controllers g1
        \<and> updateStateAbortController g' = updateStateAbortController g1"
    proof (cases didChangeFile)
      case True
      with False assms u1 show ?thesis
        by (auto simp: gated_def didChangeFile_def pollState_def changed_def Let_def
            g1_def [symmetric])
    next
      case same: False
      obtain g2 evs2 t2
        where r: "pollState_resolve dirname target token (snapshot e) (workspace_name e) g1 = (g2, evs2, t2)"
        using prod_cases3 by blast
      with False same assms have "g' = g2"
        by (auto simp: gated_def didChangeFile_def pollState_def changed_def Let_def
            g1_def [symmetric])
      with pollState_resolve_rest [OF r] show ?thesis by simp
    qed
    with c1 u1 False show ?thesis by (simp add: gated_def)
  qed
qed

theorem gates_leave_controller_witness:
  "pollState ex_dirname ''http://collector'' ''secret'' (Some ex_editor) ex_globals
     = (ex_globals\<lparr>updateStateAbortController := Some 1, controllers := [True, False]\<rparr>,
        [Log ''not equal'',
         Call (Exec ''git check-ignore C:/proj/a.js -q'' ''C:/proj'' 1)],
        IgnoreCheckPending ex_State ''http://collector'' ''secret'')
   \<and> changed (prevState ex_globals) (snapshot ex_editor)
   \<and> fileName (snapshot ex_editor) \<notin> ignoredFiles ex_globals
   \<and> controllers (ex_globals\<lparr>updateStateAbortController := Some 1, controllers := [True, False]\<rparr>)
       = (controllers ex_globals)[0 := True] @ [False]
   \<and> pollState ex_dirname ''http://collector'' ''secret'' (Some ex_editor)
        (ex_globals\<lparr>ignoredFiles := {''C:/proj/a.js''}\<rparr>)
     = (ex_globals\<lparr>ignoredFiles := {''C:/proj/a.js''}\<rparr>,
        [Log ''not equal'', Log ''C:/proj/a.js is ignored (looked up from cache)''], Finished)"
proof -
  have 1: "pollState ex_dirname ''http://collector'' ''secret'' (Some ex_editor) ex_globals
     = (ex_globals\<lparr>updateStateAbortController := Some 1, controllers := [True, False]\<rparr>,
        [Log ''not equal'',
         Call (Exec ''git check-ignore C:/proj/a.js -q'' ''C:/proj'' 1)],
        IgnoreCheckPending ex_State ''http://collector'' ''secret'')"
    by (simp add: snapshot_ex_editor ex_eval)
  have 2: "pollState ex_dirname ''http://collector'' ''secret'' (Some ex_editor)
        (ex_globals\<lparr>ignoredFiles := {''C:/proj/a.js''}\<rparr>)
     = (ex_globals\<lparr>ignoredFiles := {''C:/proj/a.js''}\<rparr>,
        [Log ''not equal'', Log ''C:/proj/a.js is ignored (looked up from cache)''], Finished)"
    by (simp add: snapshot_ex_editor ex_eval)
  from gates_leave_controller [OF 1] gates_leave_controller [OF 2] 1 2 show ?thesis
    by (simp add: changed_def snapshot_ex_editor ex_eval)
qed

text \<open>
  The pipeline of extension.js differs here: it replaces the controller before it looks
  into the ignore cache, so a tick that ends at the ignore-cache gate has aborted the
  previous controller and installed a new one.
\<close>

lemma pollState_ext_replaces_controller_before_cache_gate:
  "pollState_ext ex_dirname ''http://collector'' ''secret'' (Some ex_editor)
        (ex_globals\<lparr>ignoredFiles := {''C:/proj/a.js''}\<rparr>)
     = (ex_globals\<lparr>ignoredFiles := {''C:/proj/a.js''}, prevState := ex_State,
                     updateStateAbortController := Some 1, controllers := [True, False]\<rparr>,
        [Log ''Updating state'', Log ''C:/proj/a.js is ignored (looked up from cache)''],
        Finished)"
  by (simp add: pollState_ext_def snapshot_ex_editor ex_eval)

subsection \<open>The reports\<close>

lemma report_bodies_simps:
  "report_bodies [] = []"
  "report_bodies (Log l # evs) = report_bodies evs"
  "report_bodies (Call (Exec c d sg) # evs) = report_bodies evs"
  "report_bodies (Call RespText # evs) = report_bodies evs"
  "report_bodies (Call (Fetch u tk b sg) # evs) = b # report_bodies evs"
  "report_bodies (evs1 @ evs2) = report_bodies evs1 @ report_bodies evs2"
  by (simp_all add: report_bodies_def calls_def)

lemma report_bodies_no_calls: "calls l = [] \<Longrightarrow> report_bodies l = []"
  by (simp add: report_bodies_def)

text \<open>The members of \<open>JSON.stringify({repository, ...curState})\<close>.\<close>

lemma report_body:
  "JSON_stringify (spread [(''repository'', case repo of None \<Rightarrow> Undefined | Some u \<Rightarrow> Str u)]
     (State_obj cur))
   = expected_body repo cur"
  by (cases repo; cases rule: option.exhaust [of "workspace cur"])
     (simp_all add: JSON_stringify_def State_obj_def expected_body_def)

lemma pollState_report_sends:
  "pollState_report target token cur repo g = (g', evs, t) \<Longrightarrow>
     prevState g' = cur \<and>
     (report_bodies evs = [] \<or>
      report_bodies evs =
        [expected_body repo cur]
      \<and> t = FetchPending cur)"
  by (auto simp: pollState_report_def Let_def report_body report_bodies_simps
      simp del: spread.simps split: option.splits)

lemma findGitHubURL_no_report:
  "findGitHubURL d w f sg g = (g', evs, r) \<Longrightarrow> report_bodies evs = []"
  by (auto simp: findGitHubURL_def Let_def report_bodies_simps split: option.splits)

lemma findGitHubURL_resume_no_report:
  "findGitHubURL_resume res out g = (g', evs, r) \<Longrightarrow> report_bodies evs = []"
  by (cases res; cases out)
     (auto simp: Let_def findGitHubURL_loop_def report_bodies_simps
        split: prod.splits option.splits if_splits)

lemma pollState_resolved_sends:
  assumes "pollState_resolved target token cur (g, evs, res) = (g', evs', t)"
    and "report_bodies evs = []" and "report_bodies evs' \<noteq> []"
  shows "prevState g' = cur \<and> t = FetchPending cur \<and>
     (\<exists>repo. report_bodies evs' =
        [expected_body repo cur])"
proof (cases res)
  case (Returned repo)
  obtain g2 evs2 t2 where r: "pollState_report target token cur repo g = (g2, evs2, t2)"
    using prod_cases3 by blast
  with assms Returned have eq: "g' = g2" "evs' = evs @ evs2" "t = t2"
    by (auto simp: pollState_resolved_def)
  with assms have "report_bodies evs2 \<noteq> []" by (simp add: report_bodies_simps)
  with pollState_report_sends [OF r] eq assms(2) show ?thesis
    by (auto simp: report_bodies_simps)
next
  case (RemotesPending w d sg)
  with assms show ?thesis by (auto simp: pollState_resolved_def)
next
  case (RemoteURLPending w d sg remotes i)
  with assms show ?thesis by (auto simp: pollState_resolved_def)
qed

lemma pollState_resolve_sends:
  assumes "pollState_resolve dirname target token cur wsn g = (g', evs', t)"
    and "report_bodies evs' \<noteq> []"
  shows "prevState g' = cur \<and> t = FetchPending cur \<and>
     (\<exists>repo. report_bodies evs' =
        [expected_body repo cur])"
proof -
  define ctl where "ctl = updateStateAbortController g"
  show ?thesis
  proof (cases ctl)
    case None
    with assms show ?thesis by (simp add: pollState_resolve_def report_bodies_simps ctl_def)
  next
    case (Some sg)
    obtain g1 evs1 r1
      where f: "findGitHubURL dirname wsn (fileName cur) sg g = (g1, evs1, r1)"
      using prod_cases3 by blast
    with assms Some have "pollState_resolved target token cur (g1, evs1, r1) = (g', evs', t)"
      by (simp add: pollState_resolve_def ctl_def)
    from pollState_resolved_sends [OF this findGitHubURL_no_report [OF f] assms(2)]
    show ?thesis .
  qed
qed

text \<open>A first step that sends a report has written \<open>prevState\<close> and waits for \<open>fetch\<close>.\<close>

lemma pollState_sends:
  assumes "pollState dirname target token ed g = (g', evs, t)" and "report_bodies evs \<noteq> []"
  shows "\<exists>e. ed = Some e \<and> prevState g' = snapshot e \<and> t = FetchPending (snapshot e) \<and>
     (\<exists>repo. report_bodies evs =
        [expected_body repo (snapshot e)])"
proof (cases ed)
  case None
  with assms show ?thesis by (simp add: pollState_def report_bodies_simps)
next
  case (Some e)
  define g1 where "g1 = new_AbortController (abort_previous g)"
  obtain g2 evs2 t2
    where r: "pollState_resolve dirname target token (snapshot e) (workspace_name e) g1 = (g2, evs2, t2)"
    using prod_cases3 by blast
  from assms Some r have "g' = g2 \<and> evs = Log ''not equal'' # evs2 \<and> t = t2"
    by (auto simp: pollState_def Let_def g1_def [symmetric] report_bodies_simps
        split: if_splits option.splits)
  with assms(2) pollState_resolve_sends [OF r] Some show ?thesis
    by (simp add: report_bodies_simps)
qed

lemma pollState_resume_Resolving:
  "pollState_resume dirname wsn (Resolving cur target token res) (ExecSettled out) g = Some r \<Longrightarrow>
     r = pollState_resolved target token cur (findGitHubURL_resume res out g)"
  by (cases res) auto

text \<open>When \<open>fetch\<close> or \<open>resp.text()\<close> settles, the module state stays as it is.\<close>

lemma pollState_resume_FetchPending:
  "pollState_resume dirname wsn (FetchPending cur) s g = None
   \<or> pollState_resume dirname wsn (FetchPending cur) s g = Some (g, [Call RespText], TextPending cur)
   \<or> (\<exists>l. pollState_resume dirname wsn (FetchPending cur) s g = Some (g, l, Finished)
          \<and> calls l = [])"
proof (cases s)
  case (FetchSettled x)
  then show ?thesis by (cases x) (simp_all add: calls_def)
qed simp_all

lemma pollState_resume_TextPending:
  "pollState_resume dirname wsn (TextPending cur) s g = None
   \<or> (\<exists>l. pollState_resume dirname wsn (TextPending cur) s g = Some (g, l, Finished)
          \<and> calls l = [])"
proof (cases s)
  case (TextSettled x)
  then show ?thesis by (cases x) (simp_all add: calls_def)
qed simp_all

text \<open>A later step that sends a report has written \<open>prevState\<close> and waits for \<open>fetch\<close>.\<close>

lemma pollState_resume_sends:
  assumes "pollState_resume dirname wsn t s g = Some (g', evs, t')" and "report_bodies evs \<noteq> []"
  shows "\<exists>cur. curState_of t = Some cur \<and> prevState g' = cur \<and> t' = FetchPending cur \<and>
     (\<exists>repo. report_bodies evs =
        [expected_body repo cur])"
proof (cases t)
  case Finished
  with assms show ?thesis by simp
next
  case Threw
  with assms show ?thesis by simp
next
  case (IgnoreCheckPending cur target token)
  with assms show ?thesis
    by (cases s)
       (auto simp: Let_def report_bodies_simps split: if_splits dest: pollState_resolve_sends)
next
  case (Resolving cur target token res)
  show ?thesis
  proof (cases s)
    case (ExecSettled out)
    obtain g1 evs1 r1 where f: "findGitHubURL_resume res out g = (g1, evs1, r1)"
      using prod_cases3 by blast
    from assms(1) Resolving ExecSettled f
    have "pollState_resolved target token cur (g1, evs1, r1) = (g', evs, t')"
      using pollState_resume_Resolving [of dirname wsn cur target token res out g "(g', evs, t')"]
      by simp
    from pollState_resolved_sends [OF this findGitHubURL_resume_no_report [OF f] assms(2)]
    show ?thesis using Resolving by simp
  next
    case (FetchSettled x)
    with assms Resolving show ?thesis by simp
  next
    case (TextSettled x)
    with assms Resolving show ?thesis by simp
  qed
next
  case (FetchPending cur)
  with assms pollState_resume_FetchPending [of dirname wsn cur s g] show ?thesis
    by (auto simp: report_bodies_simps report_bodies_no_calls)
next
  case (TextPending cur)
  with assms pollState_resume_TextPending [of dirname wsn cur s g] show ?thesis
    by (auto simp: report_bodies_simps report_bodies_no_calls)
qed

lemma pollState_unchanged:
  "prevState h = snapshot e \<Longrightarrow> pollState dirname target token (Some e) h = (h, [], Finished)"
  by (simp add: pollState_def shallowEqual_State)

text \<open>The step of the concrete session in which the resolver finds a GitHub remote.\<close>

lemma ex_step:
  "pollState_resume ex_dirname (Some ''proj'')
     (Resolving ex_State ''http://collector'' ''secret''
        (RemoteURLPending (Some ''proj'') ''C:/proj'' 0 [''origin''] 0))
     (ExecSettled (ExecOk ''git@github.com:acme/widgets.git'')) ex_globals
   = Some (ex_globals\<lparr>knownGitHubs := [Some ''proj'' \<mapsto> ''https://github.com/acme/widgets''],
                      prevState := ex_State\<rparr>,
           [Log ''https://github.com/acme/widgets'', Log ''Updating state'',
            Call (Fetch ''http://collector'' ''secret''
                    ((''repository'', Str ''https://github.com/acme/widgets'') # State_obj ex_State) 0)],
           FetchPending ex_State)"
  by (simp add: ex_eval)

lemma pollState_resolved_reports:
  assumes "report_bodies evs1 = []" and "updateStateAbortController g1 = Some sg"
  shows "report_bodies (fst (snd (pollState_resolved target token cur (g1, evs1, r1))))
         = (case r1 of Returned repo \<Rightarrow> [expected_body repo cur] | _ \<Rightarrow> [])"
  using assms
  by (cases r1)
     (simp_all add: pollState_resolved_def pollState_report_def Let_def report_body
        report_bodies_simps del: spread.simps split: prod.splits)

lemma pollState_resolve_reports:
  assumes "updateStateAbortController g = Some sg"
    and "findGitHubURL dirname wsn (fileName cur) sg g = (g1, evs1, r1)"
  shows "report_bodies (fst (snd (pollState_resolve dirname target token cur wsn g)))
         = (case r1 of Returned repo \<Rightarrow> [expected_body repo cur] | _ \<Rightarrow> [])"
proof -
  have "g1 = g" using findGitHubURL_globals [OF assms(2)] .
  with assms pollState_resolved_reports [OF findGitHubURL_no_report [OF assms(2)], of g1 sg target token cur r1]
  show ?thesis by (simp add: pollState_resolve_def)
qed

lemma length_controllers_abort_previous:
  "length (controllers (abort_previous g)) = length (controllers g)"
  by (simp add: abort_previous_def split: option.splits)

lemma ex_step_resolver:
  "findGitHubURL_resume (RemoteURLPending (Some ''proj'') ''C:/proj'' 0 [''origin''] 0)
     (ExecOk ''git@github.com:acme/widgets.git'') ex_globals
   = (ex_globals\<lparr>knownGitHubs := [Some ''proj'' \<mapsto> ''https://github.com/acme/widgets'']\<rparr>,
      [Log ''https://github.com/acme/widgets''],
      Returned (Some ''https://github.com/acme/widgets''))"
  by (simp add: ex_eval)

lemma ex_cache_hit:
  "findGitHubURL ex_dirname (Some ''proj'') (fileName ex_State) 0
     (ex_globals\<lparr>knownGitHubs := [Some ''proj'' \<mapsto> ''https://github.com/acme/widgets'']\<rparr>)
   = (ex_globals\<lparr>knownGitHubs := [Some ''proj'' \<mapsto> ''https://github.com/acme/widgets'']\<rparr>,
      [Log ''https://github.com/acme/widgets (looked up from cache)''],
      Returned (Some ''https://github.com/acme/widgets''))"
  by (simp add: ex_eval)

lemma ex_cache_miss:
  "findGitHubURL ex_dirname (workspace_name ex_editor) (fileName (snapshot ex_editor))
     (length (controllers (ex_globals\<lparr>prevState := ex_State\<lparr>col := 0\<rparr>\<rparr>)))
     (new_AbortController (abort_previous (ex_globals\<lparr>prevState := ex_State\<lparr>col := 0\<rparr>\<rparr>)))
   = (ex_globals\<lparr>prevState := ex_State\<lparr>col := 0\<rparr>, updateStateAbortController := Some 1,
                    controllers := [True, False]\<rparr>,
      [Call (Exec ''git remote'' ''C:/proj'' 1)],
      RemotesPending (Some ''proj'') ''C:/proj'' 1)"
  by (simp add: snapshot_ex_editor ex_editor_def ex_eval)

text \<open>
  Claim C4, as the code has it. The claim says that every body has exactly the seven keys
  \<open>repository\<close>, \<open>workspace\<close>, \<open>fileName\<close>, \<open>language\<close>, \<open>row\<close>,
  \<open>col\<close> and \<open>viewChunk\<close>, with a string or \<open>null\<close> for \<open>repository\<close>. The
  code passes \<open>undefined\<close> to \<open>JSON.stringify\<close> both for a repository that the
  resolver did not find and for the name of a workspace that is not open, and
  \<open>JSON.stringify\<close> leaves such members out. In the first tick of the concrete session,
  where no remote is a GitHub remote, the one report that is sent has no key
  \<open>repository\<close>; in the first tick of the session without an open folder, the one
  report that is sent has no key \<open>workspace\<close>.
\<close>

theorem report_without_repository_or_workspace:
  "map keys (report_bodies (fst (snd ex_tick)))
       = [[''workspace'', ''fileName'', ''language'', ''row'', ''col'', ''viewChunk'']]
   \<and> map keys (report_bodies (fst (snd ex_tick_no_folder)))
       = [[''repository'', ''fileName'', ''language'', ''row'', ''col'', ''viewChunk'']]"
  by (simp add: ex_tick_def ex_tick_no_folder_def snapshot_def ex_editor_def getViewRange_def
      ex_eval report_bodies_simps)

text \<open>
  Claim C4, amended. Every body that a step of a tick sends (the first step of a tick
  with snapshot \<open>cur\<close>, or a later step of a tick whose \<open>curState\<close> is \<open>cur\<close>) is
  \<open>expected_body repo cur\<close> for some \<open>repo\<close>: the five fields fileName, language, row,
  col and viewChunk of \<open>cur\<close>, preceded by \<open>workspace\<close> exactly when the workspace
  name of \<open>cur\<close> is a string, preceded by \<open>repository\<close>, a string, when \<open>repo\<close> is
  a URL; no member is \<open>null\<close>. The \<open>repo\<close> is what the resolver returned in that
  step, for each of the three steps in which the resolver can return (a controller being
  installed, as it is from the first step of the first tick that passes the gates): the
  step in which a pending resolution is resumed, the step after the ignore check has
  found the file not ignored, and the first step of a tick whose file has not changed. In
  each of them one report with \<open>expected_body repo cur\<close> is sent when the resolver
  returns \<open>repo\<close>, and none when the resolver waits for an external call.
\<close>

theorem report_body_members:
  "(b \<in> set (report_bodies evs)
      \<and> (pollState dirname target token (Some e) g = (g', evs, t') \<and> cur = snapshot e
         \<or> pollState_resume dirname wsn t s g = Some (g', evs, t') \<and> curState_of t = Some cur)
     \<longrightarrow> (\<exists>repo. b = expected_body repo cur))
   \<and> ((\<forall>r. res \<noteq> Returned r) \<and> updateStateAbortController g = Some sg
      \<and> findGitHubURL_resume res out g = (g1, evs1, r1)
     \<longrightarrow> map_option (\<lambda>st. report_bodies (fst (snd st)))
           (pollState_resume dirname wsn (Resolving cur target token res) (ExecSettled out) g)
         = Some (case r1 of Returned repo \<Rightarrow> [expected_body repo cur] | _ \<Rightarrow> []))
   \<and> (updateStateAbortController g = Some sg
      \<and> findGitHubURL dirname wsn (fileName cur) sg g = (g1, evs1, r1)
     \<longrightarrow> map_option (\<lambda>st. report_bodies (fst (snd st)))
           (pollState_resume dirname wsn (IgnoreCheckPending cur target token)
              (ExecSettled (ExecErr (Num 1) err)) g)
         = Some (case r1 of Returned repo \<Rightarrow> [expected_body repo cur] | _ \<Rightarrow> []))
   \<and> (changed (prevState g) (snapshot e) \<and> fileName (snapshot e) \<notin> ignoredFiles g
      \<and> fileName (prevState g) = fileName (snapshot e)
      \<and> findGitHubURL dirname (workspace_name e) (fileName (snapshot e)) (length (controllers g))
            (new_AbortController (abort_previous g)) = (g1, evs1, r1)
     \<longrightarrow> report_bodies (fst (snd (pollState dirname target token (Some e) g)))
         = (case r1 of Returned repo \<Rightarrow> [expected_body repo (snapshot e)] | _ \<Rightarrow> []))"
proof -
  have every: "\<exists>repo. b = expected_body repo cur"
    if b: "b \<in> set (report_bodies evs)"
      and step: "pollState dirname target token (Some e) g = (g', evs, t') \<and> cur = snapshot e
         \<or> pollState_resume dirname wsn t s g = Some (g', evs, t') \<and> curState_of t = Some cur"
  proof -
    have ne: "report_bodies evs \<noteq> []" using b by auto
    have "\<exists>repo. report_bodies evs = [expected_body repo cur]"
      using step
    proof
      assume "pollState dirname target token (Some e) g = (g', evs, t') \<and> cur = snapshot e"
      with pollState_sends [of dirname target token "Some e" g g' evs t'] ne show ?thesis by auto
    next
      assume "pollState_resume dirname wsn t s g = Some (g', evs, t') \<and> curState_of t = Some cur"
      with pollState_resume_sends [of dirname wsn t s g g' evs t'] ne show ?thesis by auto
    qed
    with b show ?thesis by auto
  qed
  have resolving: "map_option (\<lambda>st. report_bodies (fst (snd st)))
           (pollState_resume dirname wsn (Resolving cur target token res) (ExecSettled out) g)
         = Some (case r1 of Returned repo \<Rightarrow> [expected_body repo cur] | _ \<Rightarrow> [])"
    if pending: "\<forall>r. res \<noteq> Returned r" and ctl: "updateStateAbortController g = Some sg"
      and f: "findGitHubURL_resume res out g = (g1, evs1, r1)"
  proof -
    have step: "pollState_resume dirname wsn (Resolving cur target token res) (ExecSettled out) g
        = Some (pollState_resolved target token cur (g1, evs1, r1))"
      using pending f by (cases res) simp_all
    have "updateStateAbortController g1 = Some sg"
      using findGitHubURL_resume_globals [OF f] ctl by auto
    from pollState_resolved_reports [OF findGitHubURL_resume_no_report [OF f] this]
    show ?thesis by (simp add: step)
  qed
  have checked: "map_option (\<lambda>st. report_bodies (fst (snd st)))
           (pollState_resume dirname wsn (IgnoreCheckPending cur target token)
              (ExecSettled (ExecErr (Num 1) err)) g)
         = Some (case r1 of Returned repo \<Rightarrow> [expected_body repo cur] | _ \<Rightarrow> [])"
    if ctl: "updateStateAbortController g = Some sg"
      and f: "findGitHubURL dirname wsn (fileName cur) sg g = (g1, evs1, r1)"
    using pollState_resolve_reports [OF ctl f] by simp
  have first: "report_bodies (fst (snd (pollState dirname target token (Some e) g)))
         = (case r1 of Returned repo \<Rightarrow> [expected_body repo (snapshot e)] | _ \<Rightarrow> [])"
    if ch: "changed (prevState g) (snapshot e)" and ni: "fileName (snapshot e) \<notin> ignoredFiles g"
      and same: "fileName (prevState g) = fileName (snapshot e)"
      and f: "findGitHubURL dirname (workspace_name e) (fileName (snapshot e)) (length (controllers g))
            (new_AbortController (abort_previous g)) = (g1, evs1, r1)"
  proof -
    define g0 where "g0 = new_AbortController (abort_previous g)"
    have ctl: "updateStateAbortController g0 = Some (length (controllers g))"
      by (simp add: g0_def new_AbortController_def length_controllers_abort_previous)
    have prev: "prevState g0 = prevState g"
      by (simp add: g0_def new_AbortController_def abort_previous_def split: option.splits)
    have "pollState dirname target token (Some e) g
        = (case pollState_resolve dirname target token (snapshot e) (workspace_name e) g0 of
             (g2, evs, t) \<Rightarrow> (g2, Log ''not equal'' # evs, t))"
      using ch ni same prev by (simp add: pollState_def changed_def Let_def g0_def [symmetric])
    then have "report_bodies (fst (snd (pollState dirname target token (Some e) g)))
        = report_bodies (fst (snd (pollState_resolve dirname target token (snapshot e) (workspace_name e) g0)))"
      by (simp add: report_bodies_simps split: prod.splits)
    with pollState_resolve_reports [OF ctl f [folded g0_def]] show ?thesis by simp
  qed
  show ?thesis using every resolving checked first by blast
qed

theorem report_body_members_witness:
  "(''repository'', Str ''https://github.com/acme/widgets'') # State_obj ex_State
     \<in> set (report_bodies
          [Log ''https://github.com/acme/widgets'', Log ''Updating state'',
            Call (Fetch ''http://collector'' ''secret''
                    ((''repository'', Str ''https://github.com/acme/widgets'') # State_obj ex_State) 0)])
   \<and> expected_body (Some ''https://github.com/acme/widgets'') ex_State
       = [(''repository'', Str ''https://github.com/acme/widgets''), (''workspace'', Str ''proj''),
          (''fileName'', Str ''C:/proj/a.js''), (''language'', Str ''javascript''),
          (''row'', Num 1), (''col'', Num 2), (''viewChunk'', Str ''let x'')]
   \<and> (\<exists>repo. (''repository'', Str ''https://github.com/acme/widgets'') # State_obj ex_State
               = expected_body repo ex_State)
   \<and> updateStateAbortController ex_globals = Some 0
   \<and> map_option (\<lambda>st. report_bodies (fst (snd st)))
        (pollState_resume ex_dirname (Some ''proj'')
           (Resolving ex_State ''http://collector'' ''secret''
              (RemoteURLPending (Some ''proj'') ''C:/proj'' 0 [''origin''] 0))
           (ExecSettled (ExecOk ''git@github.com:acme/widgets.git'')) ex_globals)
       = Some [expected_body (Some ''https://github.com/acme/widgets'') ex_State]
   \<and> map_option (\<lambda>st. report_bodies (fst (snd st)))
        (pollState_resume ex_dirname (Some ''proj'')
           (IgnoreCheckPending ex_State ''http://collector'' ''secret'')
           (ExecSettled (ExecErr (Num 1) ''Error: Command failed''))
           (ex_globals\<lparr>knownGitHubs := [Some ''proj'' \<mapsto> ''https://github.com/acme/widgets'']\<rparr>))
       = Some [expected_body (Some ''https://github.com/acme/widgets'') ex_State]
   \<and> changed (prevState (ex_globals\<lparr>prevState := ex_State\<lparr>col := 0\<rparr>\<rparr>)) (snapshot ex_editor)
   \<and> fileName (snapshot ex_editor) \<notin> ignoredFiles (ex_globals\<lparr>prevState := ex_State\<lparr>col := 0\<rparr>\<rparr>)
   \<and> fileName (prevState (ex_globals\<lparr>prevState := ex_State\<lparr>col := 0\<rparr>\<rparr>))
       = fileName (snapshot ex_editor)
   \<and> report_bodies (fst (snd (pollState ex_dirname ''http://collector'' ''secret'' (Some ex_editor)
          (ex_globals\<lparr>prevState := ex_State\<lparr>col := 0\<rparr>\<rparr>)))) = []"
proof -
  have b: "(''repository'', Str ''https://github.com/acme/widgets'') # State_obj ex_State
     \<in> set (report_bodies
          [Log ''https://github.com/acme/widgets'', Log ''Updating state'',
            Call (Fetch ''http://collector'' ''secret''
                    ((''repository'', Str ''https://github.com/acme/widgets'') # State_obj ex_State) 0)])"
    by (simp add: report_bodies_simps)
  have c: "curState_of (Resolving ex_State ''http://collector'' ''secret''
        (RemoteURLPending (Some ''proj'') ''C:/proj'' 0 [''origin''] 0)) = Some ex_State" by simp
  have x: "expected_body (Some ''https://github.com/acme/widgets'') ex_State
       = [(''repository'', Str ''https://github.com/acme/widgets''), (''workspace'', Str ''proj''),
          (''fileName'', Str ''C:/proj/a.js''), (''language'', Str ''javascript''),
          (''row'', Num 1), (''col'', Num 2), (''viewChunk'', Str ''let x'')]"
    by (simp add: expected_body_def ex_State_def)
  have ctl: "updateStateAbortController ex_globals = Some 0"
    by (simp add: ex_globals_def)
  have ctl_known: "updateStateAbortController
      (ex_globals\<lparr>knownGitHubs := [Some ''proj'' \<mapsto> ''https://github.com/acme/widgets'']\<rparr>)
      = Some 0"
    by (simp add: ex_globals_def)
  have pending: "\<forall>r. RemoteURLPending (Some ''proj'') ''C:/proj'' 0 [''origin''] 0 \<noteq> Returned r"
    by simp
  have ch: "changed (prevState (ex_globals\<lparr>prevState := ex_State\<lparr>col := 0\<rparr>\<rparr>)) (snapshot ex_editor)"
    by (simp add: changed_def shallowEqual_State snapshot_ex_editor ex_State_def)
  have ni: "fileName (snapshot ex_editor) \<notin> ignoredFiles (ex_globals\<lparr>prevState := ex_State\<lparr>col := 0\<rparr>\<rparr>)"
    by (simp add: ex_globals_def initial_globals_def)
  have same: "fileName (prevState (ex_globals\<lparr>prevState := ex_State\<lparr>col := 0\<rparr>\<rparr>))
       = fileName (snapshot ex_editor)"
    by (simp add: snapshot_ex_editor)
  note parts = report_body_members
  have 1: "\<exists>repo. (''repository'', Str ''https://github.com/acme/widgets'') # State_obj ex_State
               = expected_body repo ex_State"
    using parts [THEN conjunct1, rule_format, OF conjI [OF b disjI2 [OF conjI [OF ex_step c]]]] .
  have 2: "map_option (\<lambda>st. report_bodies (fst (snd st)))
        (pollState_resume ex_dirname (Some ''proj'')
           (Resolving ex_State ''http://collector'' ''secret''
              (RemoteURLPending (Some ''proj'') ''C:/proj'' 0 [''origin''] 0))
           (ExecSettled (ExecOk ''git@github.com:acme/widgets.git'')) ex_globals)
       = Some [expected_body (Some ''https://github.com/acme/widgets'') ex_State]"
    using parts [THEN conjunct2, THEN conjunct1, rule_format,
        OF conjI [OF pending conjI [OF ctl ex_step_resolver]],
        of ex_dirname "Some ''proj''" ex_State "''http://collector''" "''secret''"]
    by simp
  have 3: "map_option (\<lambda>st. report_bodies (fst (snd st)))
        (pollState_resume ex_dirname (Some ''proj'')
           (IgnoreCheckPending ex_State ''http://collector'' ''secret'')
           (ExecSettled (ExecErr (Num 1) ''Error: Command failed''))
           (ex_globals\<lparr>knownGitHubs := [Some ''proj'' \<mapsto> ''https://github.com/acme/widgets'']\<rparr>))
       = Some [expected_body (Some ''https://github.com/acme/widgets'') ex_State]"
    using parts [THEN conjunct2, THEN conjunct2, THEN conjunct1, rule_format,
        OF conjI [OF ctl_known ex_cache_hit],
        of "''http://collector''" "''secret''" "''Error: Command failed''"]
    by simp
  have 4: "report_bodies (fst (snd (pollState ex_dirname ''http://collector'' ''secret'' (Some ex_editor)
          (ex_globals\<lparr>prevState := ex_State\<lparr>col := 0\<rparr>\<rparr>)))) = []"
    using parts [THEN conjunct2, THEN conjunct2, THEN conjunct2, rule_format,
        OF conjI [OF ch conjI [OF ni conjI [OF same ex_cache_miss]]],
        of "''http://collector''" "''secret''"]
    by simp
  show ?thesis using b x 1 ctl 2 3 ch ni same 4 by blast
qed

subsection \<open>The last reported state\<close>

text \<open>
  Claim C8. Whenever a step of a tick with snapshot \<open>cur\<close> sends a report, the module
  state in which the tick then waits for \<open>fetch\<close> already has \<open>prevState = cur\<close>: the
  write precedes the call in the same step, and no response has arrived. A tick that
  starts in that state, or in any later state whose \<open>prevState\<close> is still \<open>cur\<close>, and
  observes the same snapshot returns at the change detector without an event and without
  touching the state. When \<open>fetch\<close> settles, the module state is left as it is.
\<close>

theorem prevState_written_before_send:
  assumes "report_bodies evs \<noteq> []"
    and "pollState dirname target token (Some e) g = (g', evs, t') \<and> cur = snapshot e
       \<or> pollState_resume dirname wsn t s g = Some (g', evs, t') \<and> curState_of t = Some cur"
  shows "prevState g' = cur \<and> t' = FetchPending cur
       \<and> (snapshot e_next = cur \<longrightarrow>
            pollState dirname target_next token_next (Some e_next) g' = (g', [], Finished))
       \<and> (prevState h = cur \<and> snapshot e_next = cur \<longrightarrow>
            pollState dirname target_next token_next (Some e_next) h = (h, [], Finished))
       \<and> (pollState_resume dirname wsn (FetchPending cur) resp h = Some (h_after, evs_after, t_after)
            \<longrightarrow> h_after = h)"
proof -
  have 1: "prevState g' = cur \<and> t' = FetchPending cur"
    using assms(2)
  proof
    assume "pollState dirname target token (Some e) g = (g', evs, t') \<and> cur = snapshot e"
    with pollState_sends [of dirname target token "Some e" g g' evs t'] assms(1)
    show ?thesis by auto
  next
    assume "pollState_resume dirname wsn t s g = Some (g', evs, t') \<and> curState_of t = Some cur"
    with pollState_resume_sends [of dirname wsn t s g g' evs t'] assms(1)
    show ?thesis by auto
  qed
  have 2: "prevState k = cur \<and> snapshot e_next = cur \<longrightarrow>
            pollState dirname target_next token_next (Some e_next) k = (k, [], Finished)" for k
    by (simp add: pollState_unchanged)
  have 3: "pollState_resume dirname wsn (FetchPending cur) resp h = Some (h_after, evs_after, t_after)
            \<longrightarrow> h_after = h"
    using pollState_resume_FetchPending [of dirname wsn cur resp h] by auto
  show ?thesis using 1 2 [of g'] 2 [of h] 3 by blast
qed

theorem prevState_written_before_send_witness:
  "report_bodies
          [Log ''https://github.com/acme/widgets'', Log ''Updating state'',
            Call (Fetch ''http://collector'' ''secret''
                    ((''repository'', Str ''https://github.com/acme/widgets'') # State_obj ex_State) 0)]
     \<noteq> []
  \<and> pollState_resume ex_dirname (Some ''proj'')
     (Resolving ex_State ''http://collector'' ''secret''
        (RemoteURLPending (Some ''proj'') ''C:/proj'' 0 [''origin''] 0))
     (ExecSettled (ExecOk ''git@github.com:acme/widgets.git'')) ex_globals
   = Some (ex_globals\<lparr>knownGitHubs := [Some ''proj'' \<mapsto> ''https://github.com/acme/widgets''],
                      prevState := ex_State\<rparr>,
           [Log ''https://github.com/acme/widgets'', Log ''Updating state'',
            Call (Fetch ''http://collector'' ''secret''
                    ((''repository'', Str ''https://github.com/acme/widgets'') # State_obj ex_State) 0)],
           FetchPending ex_State)
  \<and> snapshot ex_editor = ex_State
  \<and> pollState ex_dirname ''http://collector'' ''secret'' (Some ex_editor)
       (ex_globals\<lparr>knownGitHubs := [Some ''proj'' \<mapsto> ''https://github.com/acme/widgets''],
                      prevState := ex_State\<rparr>)
     = (ex_globals\<lparr>knownGitHubs := [Some ''proj'' \<mapsto> ''https://github.com/acme/widgets''],
                      prevState := ex_State\<rparr>, [], Finished)"
proof -
  have b: "report_bodies
          [Log ''https://github.com/acme/widgets'', Log ''Updating state'',
            Call (Fetch ''http://collector'' ''secret''
                    ((''repository'', Str ''https://github.com/acme/widgets'') # State_obj ex_State) 0)]
     \<noteq> []"
    by (simp add: report_bodies_simps)
  have c: "curState_of (Resolving ex_State ''http://collector'' ''secret''
        (RemoteURLPending (Some ''proj'') ''C:/proj'' 0 [''origin''] 0)) = Some ex_State" by simp
  from prevState_written_before_send [OF b disjI2 [OF conjI [OF ex_step c]],
      where e_next = ex_editor and target_next = "''http://collector''"
      and token_next = "''secret''"]
    b ex_step snapshot_ex_editor
  show ?thesis by blast
qed

end
